theory Spec2Isabelle
  imports Main "HOL-Library.AList"
begin

section \<open>JavaScript values and objects\<close>

text \<open>
  The service \<open>crudManager\<close> (app/scripts/services/crudManager.js) works on three kinds
  of data: the configuration object, the records exchanged with the REST endpoint, and
  promises. Attribute values and record values are the primitive JavaScript values,
  with the integral numbers for numbers, and \<open>JNative\<close> for a function or object of the
  runtime or of a library (\<open>Object\<close>, \<open>Object.prototype.toString\<close>, a request method of
  the REST client): the service never looks inside one, so it is known by its name only.
\<close>

datatype jsval = JUndefined | JNull | JBool bool | JNum int | JStr string | JNative string

text \<open>
  A plain JavaScript object is the list of its own enumerable properties in enumeration
  order. The keys of an object are pairwise distinct; the theorems that depend on it say
  so (\<open>distinct (map fst obj)\<close>).
\<close>

type_synonym 'a object = "(string \<times> 'a) list"

type_synonym field = "jsval object"

type_synonym entity = "jsval object"

text \<open>
  Every plain object, the ones parsed from JSON among them, inherits the properties of
  \<open>Object.prototype\<close>: the ones of ECMAScript 5 and the legacy accessor helpers that the
  engines carry. They are not enumerable, so \<open>angular.forEach\<close> does not visit them, but
  \<open>k in obj\<close> and \<open>obj[k]\<close> see them.
\<close>

definition Object_prototype :: "jsval object" where
  "Object_prototype =
     [(''constructor'', JNative ''Object''),
      (''toString'', JNative ''Object.prototype.toString''),
      (''toLocaleString'', JNative ''Object.prototype.toLocaleString''),
      (''valueOf'', JNative ''Object.prototype.valueOf''),
      (''hasOwnProperty'', JNative ''Object.prototype.hasOwnProperty''),
      (''isPrototypeOf'', JNative ''Object.prototype.isPrototypeOf''),
      (''propertyIsEnumerable'', JNative ''Object.prototype.propertyIsEnumerable''),
      (''__defineGetter__'', JNative ''Object.prototype.__defineGetter__''),
      (''__defineSetter__'', JNative ''Object.prototype.__defineSetter__''),
      (''__lookupGetter__'', JNative ''Object.prototype.__lookupGetter__''),
      (''__lookupSetter__'', JNative ''Object.prototype.__lookupSetter__''),
      (''__proto__'', JNative ''Object.prototype'')]"

text \<open>
  \<open>obj[k]\<close> and \<open>obj.k\<close> on an object of values: the own property if there is one, else
  the inherited one, else \<open>undefined\<close>.
\<close>

definition get_property :: "jsval object \<Rightarrow> string \<Rightarrow> jsval" where
  "get_property obj k =
     (case map_of obj k of
        Some v \<Rightarrow> v
      | None \<Rightarrow> (case map_of Object_prototype k of Some v \<Rightarrow> v | None \<Rightarrow> JUndefined))"

text \<open>\<open>k in obj\<close>: an own or an inherited property.\<close>

definition js_in :: "string \<Rightarrow> 'a object \<Rightarrow> bool" where
  "js_in k obj = (k \<in> fst ` set obj \<or> k \<in> fst ` set Object_prototype)"

text \<open>
  \<open>obj[k]\<close> on an object whose own properties are of one shape (the entities of the
  configuration): an own property, an inherited value, or \<open>undefined\<close> (\<open>None\<close>).
\<close>

datatype 'a member = Own 'a | Inherited jsval

definition get_member :: "'a object \<Rightarrow> string \<Rightarrow> 'a member option" where
  "get_member obj k =
     (case map_of obj k of
        Some x \<Rightarrow> Some (Own x)
      | None \<Rightarrow> map_option Inherited (map_of Object_prototype k))"

text \<open>\<open>obj[k] = v\<close>: an existing property keeps its place, a new one comes last.\<close>

definition set_property :: "string \<Rightarrow> 'a \<Rightarrow> 'a object \<Rightarrow> 'a object" where
  "set_property k v obj = AList.update k v obj"

text \<open>\<open>typeof(v) === "undefined"\<close>\<close>

definition typeof_undefined :: "jsval \<Rightarrow> bool" where
  "typeof_undefined v = (v = JUndefined)"

text \<open>Truthiness, and \<open>a || b\<close>, which yields \<open>a\<close> itself when it is truthy.\<close>

fun truthy :: "jsval \<Rightarrow> bool" where
  "truthy JUndefined = False"
| "truthy JNull = False"
| "truthy (JBool b) = b"
| "truthy (JNum n) = (n \<noteq> 0)"
| "truthy (JStr s) = (s \<noteq> [])"
| "truthy (JNative f) = True"

definition js_or :: "jsval \<Rightarrow> jsval \<Rightarrow> jsval" where
  "js_or a b = (if truthy a then a else b)"

text \<open>
  \<open>Array.prototype.indexOf\<close>: the first index holding a strictly equal element, or -1.
  On primitive values without NaN strict equality is equality, and a native value is
  strictly equal to itself only.
\<close>

fun indexOf_from :: "int \<Rightarrow> 'a list \<Rightarrow> 'a \<Rightarrow> int" where
  "indexOf_from i [] x = - 1"
| "indexOf_from i (y # ys) x = (if y = x then i else indexOf_from (i + 1) ys x)"

definition indexOf :: "'a list \<Rightarrow> 'a \<Rightarrow> int" where
  "indexOf xs x = indexOf_from 0 xs x"

text \<open>
  \<open>angular.forEach(obj, iterator, context)\<close> calls \<open>iterator(value, key)\<close> for every
  own property in order; what the iterator mutates (its context, or an object it closes
  over) is the state threaded through.
\<close>

definition forEach :: "'a object \<Rightarrow> ('a \<Rightarrow> string \<Rightarrow> 's \<Rightarrow> 's) \<Rightarrow> 's \<Rightarrow> 's" where
  "forEach obj iterator s = fold (\<lambda>(key, v). iterator v key) obj s"

text \<open>
  \<open>parseInt(v)\<close> with no radix converts \<open>v\<close> to a string and reads an integer off its
  start: white space is skipped, a sign is taken, \<open>0x\<close> or \<open>0X\<close> switches to base 16, and
  the longest run of digits of the base is the number; without a digit the result is
  \<open>NaN\<close>. A double holds the integers up to \<open>2^53\<close> exactly. What lies beyond is rounded,
  or printed with an exponent, and is not followed here: it is \<open>Unfollowed\<close>, of which
  nothing is known but that it is a number. Strings are ASCII, so the white space is tab,
  line feed, vertical tab, form feed, carriage return and space.
\<close>

datatype js_integer = NaN | Integer int | Unfollowed

definition is_whitespace :: "char \<Rightarrow> bool" where
  "is_whitespace c = (c \<in> set [CHR 0x09, CHR 0x0A, CHR 0x0B, CHR 0x0C, CHR 0x0D, CHR 0x20])"

definition digit_of :: "char \<Rightarrow> nat option" where
  "digit_of c =
     (let n = (of_char c :: nat)
      in if 48 \<le> n \<and> n \<le> 57 then Some (n - 48)
         else if 97 \<le> n \<and> n \<le> 122 then Some (n - 87)
         else if 65 \<le> n \<and> n \<le> 90 then Some (n - 55)
         else None)"

fun digits_prefix :: "nat \<Rightarrow> string \<Rightarrow> nat list" where
  "digits_prefix radix [] = []"
| "digits_prefix radix (c # cs) =
     (case digit_of c of
        Some d \<Rightarrow> if d < radix then d # digits_prefix radix cs else []
      | None \<Rightarrow> [])"

definition number_of_digits :: "nat \<Rightarrow> nat list \<Rightarrow> nat" where
  "number_of_digits radix ds = foldl (\<lambda>acc d. acc * radix + d) 0 ds"

definition parseInt_string :: "string \<Rightarrow> js_integer" where
  "parseInt_string s =
     (let s1 = dropWhile is_whitespace s;
          negative = (take 1 s1 = ''-'');
          s2 = (if take 1 s1 = ''-'' \<or> take 1 s1 = ''+'' then drop 1 s1 else s1);
          hex = (take 2 s2 = ''0x'' \<or> take 2 s2 = ''0X'');
          radix = (if hex then 16 else 10);
          ds = digits_prefix radix (if hex then drop 2 s2 else s2);
          v = int (number_of_digits radix ds)
      in if ds = [] then NaN
         else if v \<le> 2 ^ 53 then Integer (if negative then - v else v)
         else Unfollowed)"

text \<open>The decimal numeral of an integer, as the conversion of a number to a string gives it.\<close>

fun decimal :: "nat \<Rightarrow> string" where
  "decimal n =
     (if n < 10 then [char_of (48 + n)]
      else decimal (n div 10) @ [char_of (48 + n mod 10)])"

declare decimal.simps [simp del]

definition number_to_string :: "int \<Rightarrow> string" where
  "number_to_string n = (if n < 0 then ''-'' @ decimal (nat (- n)) else decimal (nat n))"

fun parseInt :: "jsval \<Rightarrow> js_integer" where
  "parseInt (JStr s) = parseInt_string s"
| "parseInt (JNum n) =
     (if \<bar>n\<bar> \<le> 2 ^ 53 then parseInt_string (number_to_string n) else Unfollowed)"
| "parseInt JUndefined = parseInt_string ''undefined''"
| "parseInt JNull = parseInt_string ''null''"
| "parseInt (JBool b) = parseInt_string (if b then ''true'' else ''false'')"
| "parseInt (JNative f) = NaN"

section \<open>The configuration\<close>

text \<open>
  The shape \<open>{ global: { baseApiUrl, per_page }, entities: { name: { label, fields:
  { fieldName: { edition?, ... } } } } }\<close>. A field is an object of attributes; the
  attributes the service reads or writes are \<open>edition\<close> and \<open>value\<close>.
\<close>

record global_config =
  baseApiUrl :: jsval
  per_page :: jsval

record entity_config =
  label :: jsval
  fields_cfg :: "field object"

record config =
  global :: global_config
  entities :: "entity_config object"

section \<open>Promises, the REST client and the world\<close>

text \<open>
  The eventual state of a promise: fulfilled with a value, rejected with a reason, or
  never settled.
\<close>

datatype 'a promise = Resolved 'a | Rejected jsval | Pending

fun resolved_value :: "'a promise \<Rightarrow> 'a option" where
  "resolved_value (Resolved x) = Some x"
| "resolved_value (Rejected r) = None"
| "resolved_value Pending = None"

text \<open>
  The requests the service issues through Restangular:
  \<open>one(name, id).get()\<close>, \<open>one(name, id).remove()\<close>,
  \<open>restangularizeElement(null, entity, name).post()\<close> and \<open>.put()\<close>,
  \<open>all(name).getList({page, per_page})\<close>.
\<close>

datatype request =
    Get string jsval
  | Remove string jsval
  | Post string entity
  | Put string entity
  | GetList string js_integer jsval

text \<open>A request as it leaves the client, with the client settings of that moment.\<close>

record call =
  call_baseUrl :: jsval
  call_fullResponse :: bool
  call_request :: request

record 'd response =
  data :: 'd
  headers :: "string \<Rightarrow> jsval"

text \<open>
  The REST endpoint behind Restangular is a parameter: how each kind of request is
  answered. The \<open>data\<close> of an answer to \<open>get\<close> is the element as Restangular hands it
  over: an object whose own properties are those of the fetched record together with the
  ones the client puts on every element (\<open>route\<close>, its request methods, ...). The answers
  to \<open>post\<close>, \<open>put\<close> and \<open>remove\<close> are passed through by the service unread, so their type
  is left open.
\<close>

record 'r server =
  answer_get :: "call \<Rightarrow> entity response promise"
  answer_getList :: "call \<Rightarrow> entity list response promise"
  answer_write :: "call \<Rightarrow> 'r promise"

text \<open>
  The state shared by all operations: the configuration object that \<open>getConfig()\<close>
  settles with (the service \<open>getConfig\<close> is injected; its outcome is part of the world),
  the settings of the Restangular singleton, and the requests sent so far.
\<close>

record world =
  configuration :: "config promise"
  baseUrl :: jsval
  fullResponse :: bool
  sent :: "call list"

text \<open>
  One invocation of an operation: the world, the operation's own \<open>$q.defer()\<close>, and
  the variables its callbacks close over. An operation is followed from its call until
  everything it started has settled; the callbacks of two operations do not interleave.
\<close>

record ('d, 'v) frame =
  world :: world
  deferred :: "'d promise"
  locals :: 'v

text \<open>
  \<open>promise.then(onFulfilled, onRejected)\<close>: the callback for the way the promise
  settled runs, and what it returns settles the derived promise. With one callback a
  rejection passes to the derived promise. Nothing runs for a promise that never settles.
\<close>

definition then2 ::
  "'a promise \<times> 's \<Rightarrow> ('a \<Rightarrow> 's \<Rightarrow> 'b promise \<times> 's) \<Rightarrow> (jsval \<Rightarrow> 's \<Rightarrow> 'b promise \<times> 's)
     \<Rightarrow> 'b promise \<times> 's" where
  "then2 p onFulfilled onRejected =
     (case p of
        (Resolved x, s) \<Rightarrow> onFulfilled x s
      | (Rejected r, s) \<Rightarrow> onRejected r s
      | (Pending, s) \<Rightarrow> (Pending, s))"

definition then1 ::
  "'a promise \<times> 's \<Rightarrow> ('a \<Rightarrow> 's \<Rightarrow> 'b promise \<times> 's) \<Rightarrow> 'b promise \<times> 's" where
  "then1 p onFulfilled = then2 p onFulfilled (\<lambda>r s. (Rejected r, s))"

text \<open>\<open>$q.reject(reason)\<close>, returned from a callback.\<close>

definition q_reject :: "jsval \<Rightarrow> 's \<Rightarrow> 'b promise \<times> 's" where
  "q_reject reason s = (Rejected reason, s)"

text \<open>
  \<open>deferred.resolve\<close> and \<open>deferred.reject\<close> settle the operation's deferred if it is
  still pending and return \<open>undefined\<close>.
\<close>

definition deferred_resolve :: "'d \<Rightarrow> ('d, 'v) frame \<Rightarrow> unit promise \<times> ('d, 'v) frame" where
  "deferred_resolve v fr =
     (Resolved (),
      fr\<lparr>deferred := (case deferred fr of Pending \<Rightarrow> Resolved v | d \<Rightarrow> d)\<rparr>)"

definition deferred_reject :: "jsval \<Rightarrow> ('d, 'v) frame \<Rightarrow> unit promise \<times> ('d, 'v) frame" where
  "deferred_reject reason fr =
     (Resolved (),
      fr\<lparr>deferred := (case deferred fr of Pending \<Rightarrow> Rejected reason | d \<Rightarrow> d)\<rparr>)"

text \<open>\<open>return deferred.promise\<close>: the operation's promise, and the world it leaves.\<close>

definition deferred_promise :: "'b promise \<times> ('d, 'v) frame \<Rightarrow> 'd promise \<times> world" where
  "deferred_promise p = (deferred (snd p), world (snd p))"

text \<open>
  Modelled from the spec: the service \<open>getConfig\<close> (scripts/services/getConfig) is
  injected and not part of the source at hand. It obtains the configuration object
  asynchronously; the object is loaded once, so every call settles with the one object
  held in the world, or with the reason the loading failed.
\<close>

definition getConfig :: "('d, 'v) frame \<Rightarrow> config promise \<times> ('d, 'v) frame" where
  "getConfig fr = (configuration (world fr), fr)"

definition setBaseUrl :: "jsval \<Rightarrow> ('d, 'v) frame \<Rightarrow> ('d, 'v) frame" where
  "setBaseUrl url fr = fr\<lparr>world := (world fr)\<lparr>baseUrl := url\<rparr>\<rparr>"

definition setFullResponse :: "bool \<Rightarrow> ('d, 'v) frame \<Rightarrow> ('d, 'v) frame" where
  "setFullResponse b fr = fr\<lparr>world := (world fr)\<lparr>fullResponse := b\<rparr>\<rparr>"

definition send :: "(call \<Rightarrow> 'a promise) \<Rightarrow> request \<Rightarrow> ('d, 'v) frame \<Rightarrow> 'a promise \<times> ('d, 'v) frame" where
  "send answer rq fr =
     (let w = world fr;
          c = \<lparr>call_baseUrl = baseUrl w, call_fullResponse = fullResponse w, call_request = rq\<rparr>
      in (answer c, fr\<lparr>world := w\<lparr>sent := sent w @ [c]\<rparr>\<rparr>))"

text \<open>
  The field objects hydrated by \<open>getOne\<close> are the ones inside the configuration object:
  \<open>entityConfig.fields\<close> is a reference into it. With values instead of references, the
  mutated fields are written back to the configuration held in the world.
\<close>

definition store_fields :: "string \<Rightarrow> field object \<Rightarrow> ('d, 'v) frame \<Rightarrow> ('d, 'v) frame" where
  "store_fields entityName fs fr =
     fr\<lparr>world := (world fr)\<lparr>configuration :=
        (case configuration (world fr) of
           Resolved config \<Rightarrow>
             Resolved (config\<lparr>entities :=
               AList.map_entry entityName (\<lambda>ec. ec\<lparr>fields_cfg := fs\<rparr>) (entities config)\<rparr>)
         | p \<Rightarrow> p)\<rparr>\<rparr>"

section \<open>crudManager\<close>

definition not_found :: "string \<Rightarrow> jsval" where
  "not_found entityName = JStr (''Entity '' @ entityName @ '' not found.'')"

subsection \<open>getOne\<close>

text \<open>The \<open>fields\<close> of the result are \<open>None\<close> when they are \<open>undefined\<close>.\<close>

record one_result =
  one_fields :: "field object option"
  one_entityLabel :: jsval
  one_entityName :: string
  one_entityId :: jsval

text \<open>
  The iterator of \<open>getOne\<close>'s \<open>angular.forEach(fields, ...)\<close>; it mutates
  \<open>fields[fieldName]\<close>.
\<close>

definition hydrate_field :: "entity \<Rightarrow> field \<Rightarrow> string \<Rightarrow> field object \<Rightarrow> field object" where
  "hydrate_field entity field fieldName fs =
     (if typeof_undefined (get_property field ''edition'') then fs
      else if \<not> typeof_undefined (get_property entity fieldName) then
        AList.map_entry fieldName (set_property ''value'' (get_property entity fieldName)) fs
      else fs)"

text \<open>
  The closure variable \<open>entityConfig\<close> is unassigned (\<open>None\<close>) until the configuration
  callback has run. For a name that \<open>config.entities\<close> only inherits it holds a native
  value, which has neither \<open>fields\<close> nor \<open>label\<close>: both read as \<open>undefined\<close>, and
  \<open>angular.forEach\<close> does nothing on \<open>undefined\<close>.
\<close>

definition getOne :: "'r server \<Rightarrow> string \<Rightarrow> jsval \<Rightarrow> world \<Rightarrow> one_result promise \<times> world" where
  "getOne S entityName entityId w =
     deferred_promise
       (then2
          (then1 (getConfig \<lparr>world = w, deferred = Pending, locals = None\<rparr>)
             (\<lambda>config fr.
                if \<not> js_in entityName (entities config)
                then q_reject (not_found entityName) fr
                else
                  send (answer_get S) (Get entityName entityId)
                    (setFullResponse True
                       (setBaseUrl (baseApiUrl (global config))
                          (fr\<lparr>locals := get_member (entities config) entityName\<rparr>)))))
          (\<lambda>response fr.
             case locals fr of
               None \<Rightarrow> (Rejected (JStr ''TypeError''), fr)
             | Some (Own entityConfig) \<Rightarrow>
                 (let fs = forEach (fields_cfg entityConfig) (hydrate_field (data response))
                             (fields_cfg entityConfig)
                  in deferred_resolve
                       \<lparr>one_fields = Some fs,
                        one_entityLabel = label entityConfig,
                        one_entityName = entityName,
                        one_entityId = entityId\<rparr>
                       (store_fields entityName fs fr))
             | Some (Inherited v) \<Rightarrow>
                 deferred_resolve
                   \<lparr>one_fields = None,
                    one_entityLabel = JUndefined,
                    one_entityName = entityName,
                    one_entityId = entityId\<rparr>
                   fr)
          deferred_reject)"

subsection \<open>getEditionFields and filterEditionFields\<close>

text \<open>
  The optional \<open>filterType\<close> argument: omitted, a string, or an array. For an entity name
  that \<open>config.entities\<close> only inherits, \<open>entityConfig.fields\<close> is \<open>undefined\<close> and the
  loop of \<open>filterEditionFields\<close> runs over nothing.
\<close>

datatype filter_type = FilterUndefined | FilterString string | FilterArray "jsval list"

record edition_result =
  ed_fields :: "field object"
  ed_entityLabel :: jsval
  ed_entityName :: string

definition filterEditionFields :: "field object \<Rightarrow> jsval list \<Rightarrow> field object" where
  "filterEditionFields fs filters =
     forEach fs
       (\<lambda>field fieldName this.
          if typeof_undefined (get_property field ''edition'') then this
          else if filters = [] then set_property fieldName field this
          else if indexOf filters (get_property field ''edition'') \<noteq> - 1
            then set_property fieldName field this
          else this)
       []"

definition getEditionFields :: "string \<Rightarrow> filter_type \<Rightarrow> world \<Rightarrow> edition_result promise \<times> world" where
  "getEditionFields entityName filterType w =
     (let filters =
            (case filterType of
               FilterUndefined \<Rightarrow> []
             | FilterString s \<Rightarrow> [] @ [JStr s]
             | FilterArray a \<Rightarrow> if a \<noteq> [] then a else [])
      in deferred_promise
           (then2 (getConfig \<lparr>world = w, deferred = Pending, locals = ()\<rparr>)
              (\<lambda>config fr.
                 if \<not> js_in entityName (entities config)
                 then q_reject (not_found entityName) fr
                 else
                   (case get_member (entities config) entityName of
                      None \<Rightarrow> (Rejected (JStr ''TypeError''), fr)
                    | Some (Own entityConfig) \<Rightarrow>
                        deferred_resolve
                          \<lparr>ed_fields = filterEditionFields (fields_cfg entityConfig) filters,
                           ed_entityLabel = label entityConfig,
                           ed_entityName = entityName\<rparr>
                          fr
                    | Some (Inherited v) \<Rightarrow>
                        deferred_resolve
                          \<lparr>ed_fields = filterEditionFields [] filters,
                           ed_entityLabel = JUndefined,
                           ed_entityName = entityName\<rparr>
                          fr))
              deferred_reject))"

subsection \<open>createOne, updateOne, deleteOne\<close>

definition createOne :: "'r server \<Rightarrow> string \<Rightarrow> entity \<Rightarrow> world \<Rightarrow> 'r promise \<times> world" where
  "createOne S entityName entity w =
     deferred_promise
       (then2
          (then1 (getConfig \<lparr>world = w, deferred = Pending, locals = ()\<rparr>)
             (\<lambda>config fr.
                if \<not> js_in entityName (entities config)
                then q_reject (not_found entityName) fr
                else
                  send (answer_write S) (Post entityName entity)
                    (setBaseUrl (baseApiUrl (global config)) fr)))
          deferred_resolve
          deferred_reject)"

definition updateOne :: "'r server \<Rightarrow> string \<Rightarrow> entity \<Rightarrow> world \<Rightarrow> 'r promise \<times> world" where
  "updateOne S entityName entity w =
     deferred_promise
       (then2
          (then1 (getConfig \<lparr>world = w, deferred = Pending, locals = ()\<rparr>)
             (\<lambda>config fr.
                if \<not> js_in entityName (entities config)
                then q_reject (not_found entityName) fr
                else
                  send (answer_write S) (Put entityName entity)
                    (setBaseUrl (baseApiUrl (global config)) fr)))
          deferred_resolve
          deferred_reject)"

definition deleteOne :: "'r server \<Rightarrow> string \<Rightarrow> jsval \<Rightarrow> world \<Rightarrow> 'r promise \<times> world" where
  "deleteOne S entityName entityId w =
     deferred_promise
       (then2
          (then1 (getConfig \<lparr>world = w, deferred = Pending, locals = ()\<rparr>)
             (\<lambda>config fr.
                send (answer_write S) (Remove entityName entityId)
                  (setBaseUrl (baseApiUrl (global config)) fr)))
          deferred_resolve
          deferred_reject)"

subsection \<open>getAll\<close>

record all_result =
  all_entityName :: string
  all_entityConfig :: "entity_config member option"
  rawItems :: "entity list"
  currentPage :: js_integer
  perPage :: jsval
  totalItems :: jsval

text \<open>
  The page argument is \<open>undefined\<close> when omitted. The closure variables
  \<open>entityConfig\<close> and \<open>perPage\<close> are unassigned until the configuration callback has run.
\<close>

definition getAll :: "'r server \<Rightarrow> string \<Rightarrow> jsval \<Rightarrow> world \<Rightarrow> all_result promise \<times> world" where
  "getAll S entityName page0 w =
     (let page = (if typeof_undefined page0 then Integer 1 else parseInt page0)
      in deferred_promise
           (then2
              (then1 (getConfig \<lparr>world = w, deferred = Pending, locals = (None, JUndefined)\<rparr>)
                 (\<lambda>config fr.
                    if \<not> js_in entityName (entities config)
                    then q_reject (not_found entityName) fr
                    else
                      (let pp = js_or (per_page (global config)) (JNum 30)
                       in send (answer_getList S) (GetList entityName page pp)
                            (setFullResponse True
                               (setBaseUrl (baseApiUrl (global config))
                                  (fr\<lparr>locals :=
                                       (get_member (entities config) entityName, pp)\<rparr>))))))
              (\<lambda>response fr.
                 deferred_resolve
                   \<lparr>all_entityName = entityName,
                    all_entityConfig = fst (locals fr),
                    rawItems = data response,
                    currentPage = page,
                    perPage = snd (locals fr),
                    totalItems = headers response ''X-Count''\<rparr>
                   fr)
              deferred_reject))"

section \<open>A bookshop configuration\<close>

text \<open>
  The configuration \<open>{entities: {book: {label: 'Books', fields: {title: {edition:
  'editable'}, id: {}}}}}\<close>, with the global section the service reads the base URL
  and the page size from, and an endpoint that holds the record \<open>{id: 5, title: 'Foo'}\<close>.
  The element the client hands over for the record carries, besides the record's own
  properties, properties of the kind Restangular adds.
\<close>

definition book_fields :: "field object" where
  "book_fields = [(''title'', [(''edition'', JStr ''editable'')]), (''id'', [])]"

definition book_entity :: entity_config where
  "book_entity = \<lparr>label = JStr ''Books'', fields_cfg = book_fields\<rparr>"

definition shop_config :: "jsval \<Rightarrow> config" where
  "shop_config pp =
     \<lparr>global = \<lparr>baseApiUrl = JStr ''/api'', per_page = pp\<rparr>,
      entities = [(''book'', book_entity)]\<rparr>"

definition shop_world :: "jsval \<Rightarrow> world" where
  "shop_world pp =
     \<lparr>configuration = Resolved (shop_config pp), baseUrl = JUndefined,
      fullResponse = False, sent = []\<rparr>"

definition failed_world :: world where
  "failed_world =
     \<lparr>configuration = Rejected (JStr ''config.json: 404''), baseUrl = JUndefined,
      fullResponse = False, sent = []\<rparr>"

definition foo_record :: entity where
  "foo_record = [(''id'', JNum 5), (''title'', JStr ''Foo'')]"

definition foo_element :: entity where
  "foo_element =
     foo_record @
     [(''route'', JStr ''book''),
      (''restangularCollection'', JBool False),
      (''get'', JNative ''Restangular.get''),
      (''put'', JNative ''Restangular.put''),
      (''remove'', JNative ''Restangular.remove'')]"

definition shop_headers :: "string \<Rightarrow> jsval" where
  "shop_headers h = (if h = ''X-Count'' then JStr ''42'' else JUndefined)"

definition shop_server :: "jsval server" where
  "shop_server =
     \<lparr>answer_get = (\<lambda>c. Resolved \<lparr>data = foo_element, headers = shop_headers\<rparr>),
      answer_getList = (\<lambda>c. Resolved \<lparr>data = [foo_element], headers = shop_headers\<rparr>),
      answer_write = (\<lambda>c. Resolved JNull)\<rparr>"

text \<open>
  A catalogue with both edition tags, an untagged field, and a field whose name the
  record of the endpoint does not define.
\<close>

definition catalogue_fields :: "field object" where
  "catalogue_fields =
     [(''id'', [(''edition'', JStr ''read-only'')]),
      (''title'', [(''edition'', JStr ''editable'')]),
      (''summary'', [(''edition'', JStr ''editable''), (''type'', JStr ''text'')]),
      (''created_at'', [(''type'', JStr ''date'')])]"

definition catalogue_config :: config where
  "catalogue_config =
     \<lparr>global = \<lparr>baseApiUrl = JStr ''/api'', per_page = JNum 10\<rparr>,
      entities = [(''book'', \<lparr>label = JStr ''Books'', fields_cfg = catalogue_fields\<rparr>)]\<rparr>"

definition catalogue_world :: world where
  "catalogue_world =
     \<lparr>configuration = Resolved catalogue_config, baseUrl = JUndefined,
      fullResponse = False, sent = []\<rparr>"

text \<open>
  A configuration with edition-tagged fields named like a property that every object
  inherits and like a property that the client adds to its elements.
\<close>

definition shadowed_fields :: "field object" where
  "shadowed_fields =
     [(''title'', [(''edition'', JStr ''editable'')]),
      (''constructor'', [(''edition'', JStr ''read-only'')]),
      (''route'', [(''edition'', JStr ''read-only'')]),
      (''summary'', [(''edition'', JStr ''editable'')])]"

definition shadowed_config :: config where
  "shadowed_config =
     \<lparr>global = \<lparr>baseApiUrl = JStr ''/api'', per_page = JUndefined\<rparr>,
      entities = [(''book'', \<lparr>label = JStr ''Books'', fields_cfg = shadowed_fields\<rparr>)]\<rparr>"

definition shadowed_world :: world where
  "shadowed_world =
     \<lparr>configuration = Resolved shadowed_config, baseUrl = JUndefined,
      fullResponse = False, sent = []\<rparr>"

section \<open>Properties of the object and array primitives\<close>

lemma map_entry_skip_prefix:
  "k \<notin> fst ` set xs \<Longrightarrow> AList.map_entry k h (xs @ ys) = xs @ AList.map_entry k h ys"
  by (induction xs) auto

lemma update_appends:
  "k \<notin> fst ` set acc \<Longrightarrow> AList.update k v acc = acc @ [(k, v)]"
  by (induction acc) auto

lemma indexOf_from_absent:
  "0 \<le> i \<Longrightarrow> (indexOf_from i xs x = - 1) = (x \<notin> set xs)"
proof (induction xs arbitrary: i)
  case Nil
  then show ?case by simp
next
  case (Cons y ys)
  from Cons.prems have "0 \<le> i + 1" by simp
  from Cons.IH [OF this] Cons.prems show ?case by auto
qed

lemma indexOf_found: "(indexOf xs x \<noteq> - 1) = (x \<in> set xs)"
  using indexOf_from_absent [of 0 xs x] by (simp add: indexOf_def)

lemma map_of_filter_distinct:
  assumes "distinct (map fst fs)"
  shows "(map_of (filter (\<lambda>(k, f). P k f) fs) k = Some f) = (map_of fs k = Some f \<and> P k f)"
  using assms
proof (induction fs)
  case Nil
  then show ?case by simp
next
  case (Cons y fs)
  then show ?case
    by (cases y) (auto simp: image_iff dest: map_of_SomeD)
qed

lemma map_fst_map_entry: "map fst (AList.map_entry k h xs) = map fst xs"
  by (induction xs) auto

lemma map_of_map_keyed:
  "map_of (map (\<lambda>(k, f). (k, h k f)) fs) k = map_option (h k) (map_of fs k)"
  by (induction fs) auto

lemma map_fst_map_keyed: "map fst (map (\<lambda>(k, f). (k, h k f)) fs) = map fst fs"
  by (induction fs) auto

lemma get_property_set_other:
  "a \<noteq> k \<Longrightarrow> get_property (set_property k v obj) a = get_property obj a"
  by (simp add: get_property_def set_property_def update_conv')

lemma own_js_in: "map_of obj k = Some x \<Longrightarrow> js_in k obj"
proof -
  assume "map_of obj k = Some x"
  then have "(k, x) \<in> set obj" by (rule map_of_SomeD)
  then have "k \<in> fst ` set obj" by force
  then show ?thesis by (simp add: js_in_def)
qed

lemma own_get_member: "map_of obj k = Some x \<Longrightarrow> get_member obj k = Some (Own x)"
  by (simp add: get_member_def)

lemma absent_js_in:
  "map_of obj k = None \<Longrightarrow> map_of Object_prototype k = None \<Longrightarrow> \<not> js_in k obj"
  by (simp add: js_in_def map_of_eq_None_iff)

lemma inherited_get_member:
  assumes "map_of obj k = None" and "js_in k obj"
  shows "\<exists>v. get_member obj k = Some (Inherited v)"
proof -
  from assms have "k \<in> fst ` set Object_prototype"
    by (simp add: js_in_def map_of_eq_None_iff)
  then have "map_of Object_prototype k \<noteq> None"
    by (simp add: map_of_eq_None_iff)
  then obtain v where "map_of Object_prototype k = Some v" by blast
  with assms(1) show ?thesis by (simp add: get_member_def)
qed

section \<open>parseInt reads a number back\<close>

lemma digit_of_decimal_char: "d < 10 \<Longrightarrow> digit_of (char_of (48 + d)) = Some d"
  by (simp add: digit_of_def Let_def)

lemma decimal_digit_plain:
  assumes "digit_of c = Some d" and "d < 10"
  shows "\<not> is_whitespace c" and "c \<noteq> CHR ''-''" and "c \<noteq> CHR ''+''"
    and "c \<noteq> CHR ''x''" and "c \<noteq> CHR ''X''"
  using assms by (auto simp: is_whitespace_def digit_of_def Let_def split: if_splits)

lemma decimal_chars: "c \<in> set (decimal n) \<Longrightarrow> \<exists>d < 10. digit_of c = Some d"
proof (induction n rule: decimal.induct)
  case (1 n)
  show ?case
  proof (cases "n < 10")
    case True
    with "1.prems" have "c = char_of (48 + n)" by (simp add: decimal.simps [of n])
    with True digit_of_decimal_char show ?thesis by blast
  next
    case False
    with "1.prems" have "c \<in> set (decimal (n div 10)) \<or> c = char_of (48 + n mod 10)"
      by (auto simp: decimal.simps [of n])
    then show ?thesis
    proof
      assume "c \<in> set (decimal (n div 10))"
      with "1.IH" False show ?thesis by simp
    next
      assume "c = char_of (48 + n mod 10)"
      moreover have "n mod 10 < 10" by simp
      ultimately show ?thesis using digit_of_decimal_char by blast
    qed
  qed
qed

lemma decimal_nonempty: "decimal n \<noteq> []"
  by (subst decimal.simps) simp

lemma digits_prefix_decimal:
  "digits_prefix 10 (decimal n @ cs) =
     map (\<lambda>c. the (digit_of c)) (decimal n) @ digits_prefix 10 cs"
proof (induction n arbitrary: cs rule: decimal.induct)
  case (1 n)
  show ?case
  proof (cases "n < 10")
    case True
    then show ?thesis by (simp add: decimal.simps [of n] digit_of_decimal_char)
  next
    case False
    have m: "n mod 10 < 10" by simp
    from False "1.IH" [of "char_of (48 + n mod 10) # cs"]
    show ?thesis
      by (simp add: decimal.simps [of n] digit_of_decimal_char [OF m])
  qed
qed

lemma number_of_decimal:
  "number_of_digits 10 (map (\<lambda>c. the (digit_of c)) (decimal n)) = n"
proof (induction n rule: decimal.induct)
  case (1 n)
  show ?case
  proof (cases "n < 10")
    case True
    then show ?thesis
      by (simp add: decimal.simps [of n] digit_of_decimal_char number_of_digits_def)
  next
    case False
    have m: "n mod 10 < 10" by simp
    from False "1.IH" show ?thesis
      by (simp add: decimal.simps [of n] digit_of_decimal_char [OF m] number_of_digits_def)
  qed
qed

lemma parseInt_string_plain:
  assumes "s \<noteq> []" and "\<not> is_whitespace (hd s)"
    and "take 1 s \<noteq> ''-''" and "take 1 s \<noteq> ''+''"
    and "take 2 s \<noteq> ''0x''" and "take 2 s \<noteq> ''0X''"
    and "digits_prefix 10 s \<noteq> []"
    and "int (number_of_digits 10 (digits_prefix 10 s)) \<le> 2 ^ 53"
  shows "parseInt_string s = Integer (int (number_of_digits 10 (digits_prefix 10 s)))"
    and "parseInt_string (CHR ''-'' # s) = Integer (- int (number_of_digits 10 (digits_prefix 10 s)))"
proof -
  from assms(1,2) have dw: "dropWhile is_whitespace s = s" by (cases s) auto
  show "parseInt_string s = Integer (int (number_of_digits 10 (digits_prefix 10 s)))"
    unfolding parseInt_string_def dw Let_def using assms(3-8) by simp
  have m: "dropWhile is_whitespace (CHR ''-'' # s) = CHR ''-'' # s"
    by (simp add: is_whitespace_def)
  show "parseInt_string (CHR ''-'' # s) = Integer (- int (number_of_digits 10 (digits_prefix 10 s)))"
    unfolding parseInt_string_def m Let_def using assms(5-8) by simp
qed

lemma decimal_plain:
  shows "\<not> is_whitespace (hd (decimal n))"
    and "take 1 (decimal n) \<noteq> ''-''" and "take 1 (decimal n) \<noteq> ''+''"
    and "take 2 (decimal n) \<noteq> ''0x''" and "take 2 (decimal n) \<noteq> ''0X''"
proof -
  obtain c cs where d: "decimal n = c # cs"
    using decimal_nonempty [of n] by (cases "decimal n") auto
  then have "c \<in> set (decimal n)" by simp
  from decimal_chars [OF this] obtain k where k: "k < 10" "digit_of c = Some k" by blast
  note c = decimal_digit_plain [OF k(2) k(1)]
  from c d show "\<not> is_whitespace (hd (decimal n))"
    and "take 1 (decimal n) \<noteq> ''-''" and "take 1 (decimal n) \<noteq> ''+''"
    by simp_all
  have second: "x \<in> set (decimal n)" if "take 2 (decimal n) = [y, x]" for x y
    using that d by (cases cs) auto
  show "take 2 (decimal n) \<noteq> ''0x''"
    using second [of "CHR ''0''" "CHR ''x''"] decimal_chars [of "CHR ''x''" n]
      decimal_digit_plain(4) [of "CHR ''x''"]
    by blast
  show "take 2 (decimal n) \<noteq> ''0X''"
    using second [of "CHR ''0''" "CHR ''X''"] decimal_chars [of "CHR ''X''" n]
      decimal_digit_plain(5) [of "CHR ''X''"]
    by blast
qed

lemma parseInt_string_decimal:
  assumes "int n \<le> 2 ^ 53"
  shows "parseInt_string (decimal n) = Integer (int n)"
    and "parseInt_string (CHR ''-'' # decimal n) = Integer (- int n)"
proof -
  have ds: "digits_prefix 10 (decimal n) = map (\<lambda>c. the (digit_of c)) (decimal n)"
    using digits_prefix_decimal [of n "[]"] by simp
  have ne: "digits_prefix 10 (decimal n) \<noteq> []"
    unfolding ds using decimal_nonempty by simp
  have v: "number_of_digits 10 (digits_prefix 10 (decimal n)) = n"
    unfolding ds by (rule number_of_decimal)
  from assms v have le: "int (number_of_digits 10 (digits_prefix 10 (decimal n))) \<le> 2 ^ 53"
    by simp
  note plain = parseInt_string_plain [OF decimal_nonempty decimal_plain ne le]
  from plain(1) v show "parseInt_string (decimal n) = Integer (int n)" by simp
  from plain(2) v show "parseInt_string (CHR ''-'' # decimal n) = Integer (- int n)" by simp
qed

lemma parseInt_number: "\<bar>n\<bar> \<le> 2 ^ 53 \<Longrightarrow> parseInt (JNum n) = Integer n"
  using parseInt_string_decimal [of "nat n"] parseInt_string_decimal [of "nat (- n)"]
  by (cases "n < 0") (simp_all add: number_to_string_def)

section \<open>The two loops over the fields\<close>

text \<open>
  On an object (distinct keys) the hydration loop of \<open>getOne\<close> visits every field once
  and rewrites it in place. The lemma is stated for the loop half-way through: the
  fields \<open>xs\<close> are done, the fields \<open>ys\<close> are still to come.
\<close>

lemma hydrate_fold:
  assumes "distinct (map fst (xs @ ys))"
    and "\<And>k f. fst (g (k, f)) = k"
    and "\<And>k f. g (k, f) = (k, if typeof_undefined (get_property f ''edition'') then f
          else if \<not> typeof_undefined (get_property e k)
            then set_property ''value'' (get_property e k) f else f)"
  shows "fold (\<lambda>(key, v). hydrate_field e v key) ys (map g xs @ ys) = map g (xs @ ys)"
  using assms(1)
proof (induction ys arbitrary: xs)
  case Nil
  then show ?case by simp
next
  case (Cons y ys)
  obtain k f where y: "y = (k, f)" by (cases y)
  from Cons.prems y have notin: "k \<notin> fst ` set (map g xs)"
    using assms(2) by (auto simp: image_iff)
  have step: "hydrate_field e f k (map g xs @ (k, f) # ys) = map g (xs @ [(k, f)]) @ ys"
    using notin assms(3) [of k f]
    by (simp add: hydrate_field_def map_entry_skip_prefix)
  from Cons.prems y have "distinct (map fst ((xs @ [(k, f)]) @ ys))" by simp
  from Cons.IH [OF this] step y show ?case by simp
qed

lemma forEach_hydrate:
  assumes "distinct (map fst fs)"
  shows "forEach fs (hydrate_field e) fs =
     map (\<lambda>(k, f). (k, if typeof_undefined (get_property f ''edition'') then f
          else if \<not> typeof_undefined (get_property e k)
            then set_property ''value'' (get_property e k) f else f)) fs"
  using hydrate_fold [of "[]" fs _ e] assms by (simp add: forEach_def)

text \<open>
  The loop of \<open>filterEditionFields\<close> appends the fields it keeps to the accumulator
  \<open>this\<close>, in order.
\<close>

lemma filter_fold:
  assumes "distinct (map fst fs)" and "fst ` set acc \<inter> fst ` set fs = {}"
  shows "fold (\<lambda>(key, v) this.
            if typeof_undefined (get_property v ''edition'') then this
            else if filters = [] then set_property key v this
            else if indexOf filters (get_property v ''edition'') \<noteq> - 1
              then set_property key v this
            else this) fs acc
         = acc @ filter (\<lambda>(k, f). \<not> typeof_undefined (get_property f ''edition'') \<and>
               (filters = [] \<or> get_property f ''edition'' \<in> set filters)) fs"
  using assms
proof (induction fs arbitrary: acc)
  case Nil
  then show ?case by simp
next
  case (Cons y fs)
  obtain k f where y: "y = (k, f)" by (cases y)
  from Cons.prems y have k: "k \<notin> fst ` set acc" by auto
  from Cons.prems y have d: "distinct (map fst fs)" by simp
  from Cons.prems y have a1: "fst ` set acc \<inter> fst ` set fs = {}" by auto
  from Cons.prems y have a2: "fst ` set (acc @ [(k, f)]) \<inter> fst ` set fs = {}" by auto
  show ?case
    using Cons.IH [OF d a1] Cons.IH [OF d a2] k y
    by (simp add: set_property_def update_appends indexOf_found)
qed

lemma filterEditionFields_filter:
  assumes "distinct (map fst fs)"
  shows "filterEditionFields fs filters =
     filter (\<lambda>(k, f). \<not> typeof_undefined (get_property f ''edition'') \<and>
               (filters = [] \<or> get_property f ''edition'' \<in> set filters)) fs"
  using filter_fold [OF assms, of "[]" filters]
  by (simp add: filterEditionFields_def forEach_def)

section \<open>The operations, path by path\<close>

lemmas plumbing = deferred_promise_def then1_def then2_def getConfig_def q_reject_def
  deferred_resolve_def deferred_reject_def setBaseUrl_def setFullResponse_def send_def
  store_fields_def Let_def

lemmas examples = shop_world_def shop_config_def book_entity_def book_fields_def
  foo_record_def foo_element_def shop_server_def shop_headers_def failed_world_def
  catalogue_world_def catalogue_config_def catalogue_fields_def shadowed_world_def
  shadowed_config_def shadowed_fields_def

lemma getOne_known:
  assumes "configuration w = Resolved config" and "map_of (entities config) n = Some ec"
    and "c = \<lparr>call_baseUrl = baseApiUrl (global config), call_fullResponse = True,
              call_request = Get n i\<rparr>"
    and "answer_get S c = Resolved response"
    and "fs = forEach (fields_cfg ec) (hydrate_field (data response)) (fields_cfg ec)"
  shows "getOne S n i w =
     (Resolved \<lparr>one_fields = Some fs, one_entityLabel = label ec, one_entityName = n,
                one_entityId = i\<rparr>,
      w\<lparr>configuration := Resolved (config\<lparr>entities :=
           AList.map_entry n (\<lambda>ec. ec\<lparr>fields_cfg := fs\<rparr>) (entities config)\<rparr>),
        baseUrl := baseApiUrl (global config), fullResponse := True,
        sent := sent w @ [c]\<rparr>)"
  using assms by (simp add: getOne_def plumbing own_js_in own_get_member)

lemma getEditionFields_known:
  assumes "configuration w = Resolved config" and "map_of (entities config) n = Some ec"
  shows "getEditionFields n ft w =
     (Resolved \<lparr>ed_fields = filterEditionFields (fields_cfg ec)
                  (case ft of FilterUndefined \<Rightarrow> [] | FilterString s \<Rightarrow> [JStr s]
                   | FilterArray a \<Rightarrow> a),
                ed_entityLabel = label ec, ed_entityName = n\<rparr>, w)"
  using assms
  by (cases ft) (simp_all add: getEditionFields_def plumbing own_js_in own_get_member)

lemma getOne_configuration:
  assumes "configuration w = Resolved config"
  shows "(configuration (snd (getOne S n i w)) = Resolved config \<and>
          (\<forall>r. fst (getOne S n i w) = Resolved r \<longrightarrow>
             map_of (entities config) n = None \<and> one_fields r = None)) \<or>
     (\<exists>ec (response :: entity response).
        map_of (entities config) n = Some ec \<and>
        fst (getOne S n i w) =
          Resolved \<lparr>one_fields = Some (forEach (fields_cfg ec) (hydrate_field (data response))
                        (fields_cfg ec)),
             one_entityLabel = label ec, one_entityName = n, one_entityId = i\<rparr> \<and>
        configuration (snd (getOne S n i w)) =
          Resolved (config\<lparr>entities := AList.map_entry n
             (\<lambda>ec'. ec'\<lparr>fields_cfg := forEach (fields_cfg ec) (hydrate_field (data response))
                (fields_cfg ec)\<rparr>) (entities config)\<rparr>))"
proof (cases "map_of (entities config) n")
  case None
  let ?c = "\<lparr>call_baseUrl = baseApiUrl (global config), call_fullResponse = True,
              call_request = Get n i\<rparr>"
  show ?thesis
  proof (cases "js_in n (entities config)")
    case False
    with assms show ?thesis by (simp add: getOne_def plumbing)
  next
    case True
    from inherited_get_member [OF None True]
    obtain v where v: "get_member (entities config) n = Some (Inherited v)" ..
    with assms None True show ?thesis
      by (cases "answer_get S ?c") (simp_all add: getOne_def plumbing)
  qed
next
  case (Some ec)
  let ?c = "\<lparr>call_baseUrl = baseApiUrl (global config), call_fullResponse = True,
              call_request = Get n i\<rparr>"
  note member = own_js_in [OF Some] own_get_member [OF Some]
  show ?thesis
  proof (cases "answer_get S ?c")
    case (Resolved response)
    from getOne_known [OF assms Some refl Resolved refl] Some
    have "map_of (entities config) n = Some ec \<and>
        fst (getOne S n i w) =
          Resolved \<lparr>one_fields = Some (forEach (fields_cfg ec) (hydrate_field (data response))
                        (fields_cfg ec)),
             one_entityLabel = label ec, one_entityName = n, one_entityId = i\<rparr> \<and>
        configuration (snd (getOne S n i w)) =
          Resolved (config\<lparr>entities := AList.map_entry n
             (\<lambda>ec'. ec'\<lparr>fields_cfg := forEach (fields_cfg ec) (hydrate_field (data response))
                (fields_cfg ec)\<rparr>) (entities config)\<rparr>)"
      by simp
    then show ?thesis by blast
  next
    case (Rejected r)
    with assms member show ?thesis by (simp add: getOne_def plumbing)
  next
    case Pending
    with assms member show ?thesis by (simp add: getOne_def plumbing)
  qed
qed

lemma other_operations_keep_configuration:
  "configuration (snd (getEditionFields n ft w)) = configuration w"
  "configuration (snd (createOne S n e w)) = configuration w"
  "configuration (snd (updateOne S n e w)) = configuration w"
  "configuration (snd (deleteOne S n i w)) = configuration w"
  "configuration (snd (getAll S' n page w)) = configuration w"
  by (cases "configuration w";
      simp add: getEditionFields_def createOne_def updateOne_def deleteOne_def getAll_def
        plumbing split: option.splits promise.splits member.splits)+

lemma catalogue_loaded: "configuration catalogue_world = Resolved catalogue_config"
  by (simp add: catalogue_world_def)

lemma catalogue_book:
  "map_of (entities catalogue_config) ''book'' =
     Some \<lparr>label = JStr ''Books'', fields_cfg = catalogue_fields\<rparr>"
  by (simp add: catalogue_config_def)

lemma catalogue_distinct:
  "distinct (map fst (fields_cfg \<lparr>label = JStr ''Books'', fields_cfg = catalogue_fields\<rparr>))"
  by (simp add: catalogue_fields_def)

section \<open>getOne hydrates the edition fields\<close>

text \<open>
  Claim C1. When the configuration is loaded, holds the entity \<open>entityName\<close>, and the
  endpoint answers the request for the record, \<open>getOne(entityName, entityId)\<close> resolves
  with \<open>{fields, entityLabel, entityName, entityId}\<close>, where \<open>fields\<close> has the entity's
  fields in their order: a field that declares an \<open>edition\<close> tag and under whose name the
  fetched element reads a defined value carries that value in its \<open>value\<close> slot, and every
  other field, in particular every field without an \<open>edition\<close> tag, is returned as it is.
  The witness is the bookshop: for the fields \<open>{title: {edition: 'editable'}, id: {}}\<close>
  and the record \<open>{id: 5, title: 'Foo'}\<close> the result fields are
  \<open>{title: {edition: 'editable', value: 'Foo'}, id: {}}\<close>.
\<close>

theorem getOne_merges_values_into_edition_fields:
  assumes "configuration w = Resolved config"
    and "map_of (entities config) entityName = Some ec"
    and "distinct (map fst (fields_cfg ec))"
    and "answer_get S \<lparr>call_baseUrl = baseApiUrl (global config), call_fullResponse = True,
           call_request = Get entityName entityId\<rparr> = Resolved response"
  shows "fst (getOne S entityName entityId w) =
     Resolved
       \<lparr>one_fields =
          Some (map (\<lambda>(fieldName, field).
                 (fieldName,
                  if get_property field ''edition'' \<noteq> JUndefined \<and>
                     get_property (data response) fieldName \<noteq> JUndefined
                  then set_property ''value'' (get_property (data response) fieldName) field
                  else field))
            (fields_cfg ec)),
        one_entityLabel = label ec,
        one_entityName = entityName,
        one_entityId = entityId\<rparr>"
proof -
  have "forEach (fields_cfg ec) (hydrate_field (data response)) (fields_cfg ec) =
     map (\<lambda>(fieldName, field).
                 (fieldName,
                  if get_property field ''edition'' \<noteq> JUndefined \<and>
                     get_property (data response) fieldName \<noteq> JUndefined
                  then set_property ''value'' (get_property (data response) fieldName) field
                  else field))
            (fields_cfg ec)"
    unfolding forEach_hydrate [OF assms(3)]
    by (rule map_cong) (auto simp: typeof_undefined_def)
  with getOne_known [OF assms(1,2) refl assms(4) refl] show ?thesis by simp
qed

theorem getOne_merges_values_into_edition_fields_witness:
  "fst (getOne shop_server ''book'' (JNum 5) (shop_world JUndefined)) =
     Resolved
       \<lparr>one_fields =
          Some [(''title'', [(''edition'', JStr ''editable''), (''value'', JStr ''Foo'')]),
                (''id'', [])],
        one_entityLabel = JStr ''Books'',
        one_entityName = ''book'',
        one_entityId = JNum 5\<rparr>"
  using getOne_merges_values_into_edition_fields
    [of "shop_world JUndefined" "shop_config JUndefined" "''book''" book_entity shop_server
        "JNum 5" "\<lparr>data = foo_element, headers = shop_headers\<rparr>"]
  by (simp add: examples get_property_def set_property_def Object_prototype_def)

text \<open>
  Claim C9, as amended. Under the same conditions, an edition-tagged field gets a
  \<open>value\<close> exactly when reading the field's name on the fetched element yields a defined
  value, and the value is what was read: an own property of the element, which is a
  property of the record or one the REST client put there, or else a property the
  element inherits from \<open>Object.prototype\<close>. When the name reads as \<open>undefined\<close>, the
  field is returned exactly as the configuration holds it.
\<close>

theorem getOne_value_is_what_the_element_reads:
  assumes "configuration w = Resolved config"
    and "map_of (entities config) entityName = Some ec"
    and "distinct (map fst (fields_cfg ec))"
    and "answer_get S \<lparr>call_baseUrl = baseApiUrl (global config), call_fullResponse = True,
           call_request = Get entityName entityId\<rparr> = Resolved response"
    and "map_of (fields_cfg ec) fieldName = Some field"
    and "get_property field ''edition'' \<noteq> JUndefined"
  shows "\<exists>r fs. fst (getOne S entityName entityId w) = Resolved r \<and>
     one_fields r = Some fs \<and>
     map_of fs fieldName =
       Some (if get_property (data response) fieldName = JUndefined then field
             else set_property ''value'' (get_property (data response) fieldName) field) \<and>
     get_property (data response) fieldName =
       (case map_of (data response) fieldName of
          Some v \<Rightarrow> v
        | None \<Rightarrow> (case map_of Object_prototype fieldName of
                     Some v \<Rightarrow> v
                   | None \<Rightarrow> JUndefined))"
proof -
  let ?g = "\<lambda>k f. if typeof_undefined (get_property f ''edition'') then f
          else if \<not> typeof_undefined (get_property (data response) k)
            then set_property ''value'' (get_property (data response) k) f else f"
  have fs: "forEach (fields_cfg ec) (hydrate_field (data response)) (fields_cfg ec) =
      map (\<lambda>(k, f). (k, ?g k f)) (fields_cfg ec)"
    by (rule forEach_hydrate [OF assms(3)])
  from getOne_known [OF assms(1,2) refl assms(4) refl] fs assms(5,6)
  show ?thesis by (simp add: map_of_map_keyed typeof_undefined_def get_property_def)
qed

theorem getOne_value_is_what_the_element_reads_witness:
  "(\<exists>r fs. fst (getOne shop_server ''book'' (JNum 5) shadowed_world) = Resolved r \<and>
      one_fields r = Some fs \<and>
      map_of fs ''summary'' = Some [(''edition'', JStr ''editable'')]) \<and>
   (\<exists>r fs. fst (getOne shop_server ''book'' (JNum 5) shadowed_world) = Resolved r \<and>
      one_fields r = Some fs \<and>
      map_of fs ''title'' = Some [(''edition'', JStr ''editable''), (''value'', JStr ''Foo'')])"
proof -
  have c: "configuration shadowed_world = Resolved shadowed_config"
    by (simp add: shadowed_world_def)
  have e: "map_of (entities shadowed_config) ''book'' =
      Some \<lparr>label = JStr ''Books'', fields_cfg = shadowed_fields\<rparr>"
    by (simp add: shadowed_config_def)
  have d: "distinct (map fst (fields_cfg \<lparr>label = JStr ''Books'', fields_cfg = shadowed_fields\<rparr>))"
    by (simp add: shadowed_fields_def)
  have a: "answer_get shop_server
      \<lparr>call_baseUrl = baseApiUrl (global shadowed_config), call_fullResponse = True,
         call_request = Get ''book'' (JNum 5)\<rparr> =
      Resolved \<lparr>data = foo_element, headers = shop_headers\<rparr>"
    by (simp add: shop_server_def)
  have f: "map_of (fields_cfg \<lparr>label = JStr ''Books'', fields_cfg = shadowed_fields\<rparr>)
      ''summary'' = Some [(''edition'', JStr ''editable'')]"
    "map_of (fields_cfg \<lparr>label = JStr ''Books'', fields_cfg = shadowed_fields\<rparr>)
      ''title'' = Some [(''edition'', JStr ''editable'')]"
    by (simp_all add: shadowed_fields_def)
  have t: "get_property [(''edition'', JStr ''editable'')] ''edition'' \<noteq> JUndefined"
    by (simp add: get_property_def)
  have u: "get_property (data \<lparr>data = foo_element, headers = shop_headers\<rparr>) ''summary'' =
      JUndefined"
    "get_property (data \<lparr>data = foo_element, headers = shop_headers\<rparr>) ''title'' =
      JStr ''Foo''"
    by (simp_all add: get_property_def foo_element_def foo_record_def Object_prototype_def)
  from getOne_value_is_what_the_element_reads [OF c e d a f(1) t] u(1)
  have "\<exists>r fs. fst (getOne shop_server ''book'' (JNum 5) shadowed_world) = Resolved r \<and>
      one_fields r = Some fs \<and>
      map_of fs ''summary'' = Some [(''edition'', JStr ''editable'')]"
    by auto
  moreover from getOne_value_is_what_the_element_reads [OF c e d a f(2) t] u(2)
  have "\<exists>r fs. fst (getOne shop_server ''book'' (JNum 5) shadowed_world) = Resolved r \<and>
      one_fields r = Some fs \<and>
      map_of fs ''title'' = Some [(''edition'', JStr ''editable''), (''value'', JStr ''Foo'')]"
    by (auto simp: set_property_def)
  ultimately show ?thesis by (rule conjI)
qed

text \<open>
  As stated, C9 gives a \<open>value\<close> only to a field whose name the fetched record defines.
  The record \<open>{id: 5, title: 'Foo'}\<close> defines neither \<open>constructor\<close> nor \<open>route\<close>, yet the
  edition-tagged fields of these names come back with a \<open>value\<close>: \<open>entity['constructor']\<close>
  is the inherited \<open>Object\<close>, and \<open>entity['route']\<close> is what the client put on the element.
  The field \<open>summary\<close>, which reads as \<open>undefined\<close>, comes back unchanged.
\<close>

theorem getOne_inherited_name_counterexample:
  "map_of foo_record ''constructor'' = None \<and>
   map_of foo_record ''route'' = None \<and>
   fst (getOne shop_server ''book'' (JNum 5) shadowed_world) =
     Resolved
       \<lparr>one_fields =
          Some [(''title'', [(''edition'', JStr ''editable''), (''value'', JStr ''Foo'')]),
                (''constructor'',
                 [(''edition'', JStr ''read-only''), (''value'', JNative ''Object'')]),
                (''route'', [(''edition'', JStr ''read-only''), (''value'', JStr ''book'')]),
                (''summary'', [(''edition'', JStr ''editable'')])],
        one_entityLabel = JStr ''Books'',
        one_entityName = ''book'',
        one_entityId = JNum 5\<rparr>"
  by (simp add: getOne_def js_in_def get_member_def forEach_def hydrate_field_def plumbing
      examples get_property_def set_property_def typeof_undefined_def Object_prototype_def)

section \<open>getEditionFields filters by edition tag\<close>

text \<open>
  Claim C4. For an entity of the loaded configuration, \<open>getEditionFields(entityName)\<close>
  without a filter resolves with the entity's label and name and with exactly the fields
  whose \<open>edition\<close> tag is defined: a name maps to a field in the result if and only if it
  maps to that field in the configuration and the field's \<open>edition\<close> is not
  \<open>undefined\<close>. The result is stated as a mapping, its order left aside.
\<close>

theorem getEditionFields_without_filter:
  assumes "configuration w = Resolved config"
    and "map_of (entities config) entityName = Some ec"
    and "distinct (map fst (fields_cfg ec))"
  shows "\<exists>r. fst (getEditionFields entityName FilterUndefined w) = Resolved r \<and>
     ed_entityLabel r = label ec \<and> ed_entityName r = entityName \<and>
     distinct (map fst (ed_fields r)) \<and>
     (\<forall>fieldName field.
        (map_of (ed_fields r) fieldName = Some field) =
        (map_of (fields_cfg ec) fieldName = Some field \<and>
         get_property field ''edition'' \<noteq> JUndefined))"
  using getEditionFields_known [OF assms(1,2), of FilterUndefined]
    map_of_filter_distinct [OF assms(3)] assms(3)
  by (simp add: filterEditionFields_filter typeof_undefined_def distinct_map_filter)

theorem getEditionFields_without_filter_witness:
  "\<exists>r. fst (getEditionFields ''book'' FilterUndefined catalogue_world) = Resolved r \<and>
     map_of (ed_fields r) ''title'' = Some [(''edition'', JStr ''editable'')] \<and>
     map_of (ed_fields r) ''created_at'' = None"
proof -
  from getEditionFields_without_filter [OF catalogue_loaded catalogue_book catalogue_distinct]
  obtain r where r: "fst (getEditionFields ''book'' FilterUndefined catalogue_world) = Resolved r"
    and m: "\<And>fieldName field. (map_of (ed_fields r) fieldName = Some field) =
        (map_of catalogue_fields fieldName = Some field \<and>
         get_property field ''edition'' \<noteq> JUndefined)"
    by auto
  have "map_of (ed_fields r) ''title'' = Some [(''edition'', JStr ''editable'')]"
    unfolding m by (simp add: catalogue_fields_def get_property_def Object_prototype_def)
  moreover have "map_of (ed_fields r) ''created_at'' \<noteq> Some field" for field
    unfolding m by (auto simp: catalogue_fields_def get_property_def Object_prototype_def)
  then have "map_of (ed_fields r) ''created_at'' = None"
    by (cases "map_of (ed_fields r) ''created_at''") auto
  ultimately show ?thesis using r by simp
qed

text \<open>
  Claim C5, as amended. With a tag string as filter the result holds exactly the fields
  whose \<open>edition\<close> tag is that string; with a non-empty array of tags it holds exactly
  the edition-tagged fields whose tag is an element of the array.
\<close>

theorem getEditionFields_with_filter:
  assumes "configuration w = Resolved config"
    and "map_of (entities config) entityName = Some ec"
    and "distinct (map fst (fields_cfg ec))"
  shows "(\<exists>r. fst (getEditionFields entityName (FilterString tag) w) = Resolved r \<and>
       (\<forall>fieldName field.
          (map_of (ed_fields r) fieldName = Some field) =
          (map_of (fields_cfg ec) fieldName = Some field \<and>
           get_property field ''edition'' = JStr tag))) \<and>
     (tags \<noteq> [] \<longrightarrow>
      (\<exists>r. fst (getEditionFields entityName (FilterArray tags) w) = Resolved r \<and>
       (\<forall>fieldName field.
          (map_of (ed_fields r) fieldName = Some field) =
          (map_of (fields_cfg ec) fieldName = Some field \<and>
           get_property field ''edition'' \<noteq> JUndefined \<and>
           get_property field ''edition'' \<in> set tags))))"
proof (intro conjI impI)
  show "\<exists>r. fst (getEditionFields entityName (FilterString tag) w) = Resolved r \<and>
       (\<forall>fieldName field.
          (map_of (ed_fields r) fieldName = Some field) =
          (map_of (fields_cfg ec) fieldName = Some field \<and>
           get_property field ''edition'' = JStr tag))"
    using getEditionFields_known [OF assms(1,2), of "FilterString tag"]
      map_of_filter_distinct [OF assms(3)]
    by (auto simp: filterEditionFields_filter [OF assms(3)] typeof_undefined_def)
next
  assume "tags \<noteq> []"
  then show "\<exists>r. fst (getEditionFields entityName (FilterArray tags) w) = Resolved r \<and>
       (\<forall>fieldName field.
          (map_of (ed_fields r) fieldName = Some field) =
          (map_of (fields_cfg ec) fieldName = Some field \<and>
           get_property field ''edition'' \<noteq> JUndefined \<and>
           get_property field ''edition'' \<in> set tags))"
    using getEditionFields_known [OF assms(1,2), of "FilterArray tags"]
      map_of_filter_distinct [OF assms(3)]
    by (simp add: filterEditionFields_filter [OF assms(3)] typeof_undefined_def)
qed

theorem getEditionFields_with_filter_witness:
  "(\<exists>r. fst (getEditionFields ''book'' (FilterString ''editable'') catalogue_world) = Resolved r \<and>
      map_of (ed_fields r) ''title'' = Some [(''edition'', JStr ''editable'')] \<and>
      map_of (ed_fields r) ''id'' \<noteq> Some [(''edition'', JStr ''read-only'')]) \<and>
   (\<exists>r. fst (getEditionFields ''book'' (FilterArray [JStr ''read-only'', JStr ''editable''])
            catalogue_world) = Resolved r \<and>
      map_of (ed_fields r) ''title'' = Some [(''edition'', JStr ''editable'')] \<and>
      map_of (ed_fields r) ''id'' = Some [(''edition'', JStr ''read-only'')] \<and>
      map_of (ed_fields r) ''created_at'' \<noteq> Some [(''type'', JStr ''date'')])"
proof -
  note inst = getEditionFields_with_filter [OF catalogue_loaded catalogue_book catalogue_distinct,
      of "''editable''" "[JStr ''read-only'', JStr ''editable'']"]
  from inst obtain r where r: "fst (getEditionFields ''book'' (FilterString ''editable'') catalogue_world) = Resolved r"
    and m: "\<And>fieldName field. (map_of (ed_fields r) fieldName = Some field) =
          (map_of catalogue_fields fieldName = Some field \<and>
           get_property field ''edition'' = JStr ''editable'')"
    by auto
  from inst obtain r' where r': "fst (getEditionFields ''book''
        (FilterArray [JStr ''read-only'', JStr ''editable'']) catalogue_world) = Resolved r'"
    and m': "\<And>fieldName field. (map_of (ed_fields r') fieldName = Some field) =
          (map_of catalogue_fields fieldName = Some field \<and>
           get_property field ''edition'' \<noteq> JUndefined \<and>
           get_property field ''edition'' \<in> set [JStr ''read-only'', JStr ''editable''])"
    by auto
  have "map_of (ed_fields r) ''title'' = Some [(''edition'', JStr ''editable'')]"
    and "map_of (ed_fields r) ''id'' \<noteq> Some [(''edition'', JStr ''read-only'')]"
    unfolding m by (simp_all add: catalogue_fields_def get_property_def Object_prototype_def)
  moreover have "map_of (ed_fields r') ''title'' = Some [(''edition'', JStr ''editable'')]"
    and "map_of (ed_fields r') ''id'' = Some [(''edition'', JStr ''read-only'')]"
    and "map_of (ed_fields r') ''created_at'' \<noteq> Some [(''type'', JStr ''date'')]"
    unfolding m' by (simp_all add: catalogue_fields_def get_property_def Object_prototype_def)
  ultimately show ?thesis using r r' by simp
qed

text \<open>
  As stated, C5 covers every array of tags. For the empty array the union of the fields
  tagged with one of its tags is empty, but the code takes an array without elements for
  no restriction and returns all three edition-tagged fields of the catalogue.
\<close>

theorem getEditionFields_empty_array_counterexample:
  "fst (getEditionFields ''book'' (FilterArray []) catalogue_world) =
     Resolved
       \<lparr>ed_fields =
          [(''id'', [(''edition'', JStr ''read-only'')]),
           (''title'', [(''edition'', JStr ''editable'')]),
           (''summary'', [(''edition'', JStr ''editable''), (''type'', JStr ''text'')])],
        ed_entityLabel = JStr ''Books'',
        ed_entityName = ''book''\<rparr> \<and>
   JStr ''read-only'' \<notin> set [] \<and> JStr ''editable'' \<notin> set []"
  by (simp add: getEditionFields_def js_in_def get_member_def filterEditionFields_def
      forEach_def plumbing examples get_property_def set_property_def typeof_undefined_def
      Object_prototype_def)

text \<open>
  Claim C8. An empty array as \<open>filterType\<close> is the same call as no filter at all: both
  settle alike and leave the same world, and for an entity of the loaded configuration
  both resolve with all the edition-tagged fields.
\<close>

theorem getEditionFields_empty_array_is_no_filter:
  assumes "configuration w = Resolved config"
    and "map_of (entities config) entityName = Some ec"
    and "distinct (map fst (fields_cfg ec))"
  shows "getEditionFields entityName (FilterArray []) w =
       getEditionFields entityName FilterUndefined w \<and>
     (\<exists>r. fst (getEditionFields entityName (FilterArray []) w) = Resolved r \<and>
       (\<forall>fieldName field.
          (map_of (ed_fields r) fieldName = Some field) =
          (map_of (fields_cfg ec) fieldName = Some field \<and>
           get_property field ''edition'' \<noteq> JUndefined)))"
  using getEditionFields_known [OF assms(1,2), of "FilterArray []"]
    getEditionFields_known [OF assms(1,2), of FilterUndefined]
    map_of_filter_distinct [OF assms(3)]
  by (simp add: filterEditionFields_filter [OF assms(3)] typeof_undefined_def)

theorem getEditionFields_empty_array_is_no_filter_witness:
  "getEditionFields ''book'' (FilterArray []) catalogue_world =
     getEditionFields ''book'' FilterUndefined catalogue_world \<and>
   (\<exists>r. fst (getEditionFields ''book'' (FilterArray []) catalogue_world) = Resolved r \<and>
      map_of (ed_fields r) ''id'' = Some [(''edition'', JStr ''read-only'')] \<and>
      map_of (ed_fields r) ''title'' = Some [(''edition'', JStr ''editable'')])"
proof -
  note inst = getEditionFields_empty_array_is_no_filter
      [OF catalogue_loaded catalogue_book catalogue_distinct]
  from inst obtain r where r: "fst (getEditionFields ''book'' (FilterArray []) catalogue_world) = Resolved r"
    and m: "\<And>fieldName field. (map_of (ed_fields r) fieldName = Some field) =
          (map_of catalogue_fields fieldName = Some field \<and>
           get_property field ''edition'' \<noteq> JUndefined)"
    by auto
  have "map_of (ed_fields r) ''id'' = Some [(''edition'', JStr ''read-only'')]"
    and "map_of (ed_fields r) ''title'' = Some [(''edition'', JStr ''editable'')]"
    unfolding m by (simp_all add: catalogue_fields_def get_property_def Object_prototype_def)
  with r inst show ?thesis by simp
qed

section \<open>getAll pages through the records\<close>

text \<open>
  Claim C6, as amended. For an entity of the loaded configuration, \<open>getAll(entityName,
  page)\<close> sets the base URL and the full-response mode and requests the page \<open>pg\<close> with the
  page size \<open>pp\<close>. The page \<open>pg\<close> is 1 when the argument is omitted and \<open>parseInt(page)\<close>
  otherwise: the given page when \<open>page\<close> is an integral number of magnitude up to \<open>2^53\<close>,
  and for a string the integer its start denotes, or \<open>NaN\<close>. The page size \<open>pp\<close> is the
  global \<open>per_page\<close> when that is truthy and 30 otherwise. When the endpoint answers, the
  operation resolves with \<open>{entityName, entityConfig, rawItems, currentPage, perPage,
  totalItems}\<close>, where \<open>totalItems\<close> is the \<open>X-Count\<close> header of the response.
\<close>

theorem getAll_requests_page:
  assumes "configuration w = Resolved config"
    and "map_of (entities config) entityName = Some ec"
    and "pg = (if page = JUndefined then Integer 1 else parseInt page)"
    and "pp = (if truthy (per_page (global config)) then per_page (global config) else JNum 30)"
    and "c = \<lparr>call_baseUrl = baseApiUrl (global config), call_fullResponse = True,
              call_request = GetList entityName pg pp\<rparr>"
    and "answer_getList S c = Resolved response"
  shows "getAll S entityName page w =
     (Resolved
        \<lparr>all_entityName = entityName,
         all_entityConfig = Some (Own ec),
         rawItems = data response,
         currentPage = pg,
         perPage = pp,
         totalItems = headers response ''X-Count''\<rparr>,
      w\<lparr>baseUrl := baseApiUrl (global config), fullResponse := True, sent := sent w @ [c]\<rparr>) \<and>
     (\<forall>n. \<bar>n\<bar> \<le> 2 ^ 53 \<longrightarrow> parseInt (JNum n) = Integer n)"
proof
  show "getAll S entityName page w =
     (Resolved
        \<lparr>all_entityName = entityName,
         all_entityConfig = Some (Own ec),
         rawItems = data response,
         currentPage = pg,
         perPage = pp,
         totalItems = headers response ''X-Count''\<rparr>,
      w\<lparr>baseUrl := baseApiUrl (global config), fullResponse := True, sent := sent w @ [c]\<rparr>)"
    using assms own_js_in [OF assms(2)] own_get_member [OF assms(2)]
    by (simp add: getAll_def plumbing js_or_def typeof_undefined_def del: parseInt.simps)
  show "\<forall>n. \<bar>n\<bar> \<le> 2 ^ 53 \<longrightarrow> parseInt (JNum n) = Integer n"
    using parseInt_number by blast
qed

theorem getAll_requests_page_witness:
  "getAll shop_server ''book'' (JNum 2) (shop_world (JNum 50)) =
     (Resolved
        \<lparr>all_entityName = ''book'',
         all_entityConfig = Some (Own book_entity),
         rawItems = [foo_element],
         currentPage = Integer 2,
         perPage = JNum 50,
         totalItems = JStr ''42''\<rparr>,
      (shop_world (JNum 50))
        \<lparr>baseUrl := JStr ''/api'', fullResponse := True,
         sent := [\<lparr>call_baseUrl = JStr ''/api'', call_fullResponse = True,
                   call_request = GetList ''book'' (Integer 2) (JNum 50)\<rparr>]\<rparr>) \<and>
   map_option perPage (resolved_value (fst (getAll shop_server ''book'' JUndefined
       (shop_world JUndefined)))) = Some (JNum 30) \<and>
   map_option currentPage (resolved_value (fst (getAll shop_server ''book'' JUndefined
       (shop_world JUndefined)))) = Some (Integer 1) \<and>
   map_option currentPage (resolved_value (fst (getAll shop_server ''book'' (JStr ''2'')
       (shop_world JUndefined)))) = Some (Integer 2) \<and>
   map_option currentPage (resolved_value (fst (getAll shop_server ''book'' (JStr ''two'')
       (shop_world JUndefined)))) = Some NaN"
proof -
  have two: "parseInt (JNum 2) = Integer 2"
    by (rule parseInt_number) simp
  have str: "parseInt (JStr ''2'') = Integer 2" "parseInt (JStr ''two'') = NaN"
    by (simp_all add: parseInt_string_def is_whitespace_def digit_of_def number_of_digits_def
        Let_def)
  note inst = getAll_requests_page [where S = shop_server and entityName = "''book''"
      and ec = book_entity and response = "\<lparr>data = [foo_element], headers = shop_headers\<rparr>",
      OF _ _ _ _ refl, THEN conjunct1]
  from inst [of "shop_world (JNum 50)" "shop_config (JNum 50)" "Integer 2" "JNum 2" "JNum 50"]
    inst [of "shop_world JUndefined" "shop_config JUndefined" "Integer 1" JUndefined "JNum 30"]
    inst [of "shop_world JUndefined" "shop_config JUndefined" "Integer 2" "JStr ''2''" "JNum 30"]
    inst [of "shop_world JUndefined" "shop_config JUndefined" NaN "JStr ''two''" "JNum 30"]
    two str
  show ?thesis
    by (simp add: shop_world_def shop_config_def shop_server_def shop_headers_def
        del: parseInt.simps)
qed

text \<open>
  As stated, C6 takes \<open>per_page\<close> whenever it is set. A \<open>per_page\<close> of 0 is set, and the
  code still asks for 30 records: \<open>config.global.per_page || 30\<close> falls back on every
  falsy value.
\<close>

theorem getAll_zero_per_page_counterexample:
  "per_page (global (shop_config (JNum 0))) = JNum 0 \<and>
   map_option perPage (resolved_value (fst (getAll shop_server ''book'' (JNum 2)
       (shop_world (JNum 0))))) = Some (JNum 30) \<and>
   sent (snd (getAll shop_server ''book'' (JNum 2) (shop_world (JNum 0)))) =
     [\<lparr>call_baseUrl = JStr ''/api'', call_fullResponse = True,
       call_request = GetList ''book'' (Integer 2) (JNum 30)\<rparr>]"
proof -
  have two: "parseInt (JNum 2) = Integer 2"
    by (rule parseInt_number) simp
  then show ?thesis
    by (simp add: getAll_def js_in_def get_member_def plumbing js_or_def typeof_undefined_def
        shop_world_def shop_config_def shop_server_def del: parseInt.simps)
qed

section \<open>deleteOne\<close>

text \<open>
  Claim C10. \<open>deleteOne\<close> waits for the configuration. When loading it fails, the
  operation rejects with the reason of the failure and the world is untouched: no request
  is sent. When it is loaded, the base URL is set from it and exactly one request, the
  removal of \<open>entityName/entityId\<close>, is sent, whatever the entity name; the operation
  settles as that request does.
\<close>

theorem deleteOne_loads_configuration_first:
  "(configuration w = Rejected reason \<longrightarrow>
      deleteOne S entityName entityId w = (Rejected reason, w)) \<and>
   (configuration w = Resolved config \<longrightarrow>
      deleteOne S entityName entityId w =
        (answer_write S
           \<lparr>call_baseUrl = baseApiUrl (global config), call_fullResponse = fullResponse w,
            call_request = Remove entityName entityId\<rparr>,
         w\<lparr>baseUrl := baseApiUrl (global config),
           sent := sent w @
             [\<lparr>call_baseUrl = baseApiUrl (global config), call_fullResponse = fullResponse w,
               call_request = Remove entityName entityId\<rparr>]\<rparr>))"
proof (intro conjI impI)
  assume "configuration w = Rejected reason"
  then show "deleteOne S entityName entityId w = (Rejected reason, w)"
    by (simp add: deleteOne_def plumbing)
next
  let ?c = "\<lparr>call_baseUrl = baseApiUrl (global config), call_fullResponse = fullResponse w,
            call_request = Remove entityName entityId\<rparr>"
  assume "configuration w = Resolved config"
  then show "deleteOne S entityName entityId w =
        (answer_write S ?c,
         w\<lparr>baseUrl := baseApiUrl (global config), sent := sent w @ [?c]\<rparr>)"
    by (cases "answer_write S ?c") (simp_all add: deleteOne_def plumbing)
qed

theorem deleteOne_loads_configuration_first_witness:
  "deleteOne shop_server ''book'' (JNum 5) failed_world =
     (Rejected (JStr ''config.json: 404''), failed_world) \<and>
   sent (snd (deleteOne shop_server ''book'' (JNum 5) failed_world)) = [] \<and>
   deleteOne shop_server ''book'' (JNum 5) (shop_world JUndefined) =
     (Resolved JNull,
      (shop_world JUndefined)
        \<lparr>baseUrl := JStr ''/api'',
         sent := [\<lparr>call_baseUrl = JStr ''/api'', call_fullResponse = False,
                   call_request = Remove ''book'' (JNum 5)\<rparr>]\<rparr>)"
  using deleteOne_loads_configuration_first
      [of failed_world "JStr ''config.json: 404''" shop_server "''book''" "JNum 5"]
    deleteOne_loads_configuration_first
      [of "shop_world JUndefined" _ shop_server "''book''" "JNum 5" "shop_config JUndefined"]
  by (simp add: failed_world_def shop_world_def shop_config_def shop_server_def)

section \<open>Entity names that the configuration does not know\<close>

text \<open>
  Claim C2. The bookshop knows no entity \<open>author\<close>. \<open>getEditionFields('author')\<close>
  returns \<open>$q.reject(...)\<close> from the only callback of its only \<open>then\<close>: that rejects the
  promise derived by \<open>then\<close>, which nobody holds, and the operation's own deferred is
  never settled. \<open>getOne\<close>, which chains a second \<open>then\<close> with \<open>deferred.reject\<close>, rejects
  with the message.
\<close>

theorem getEditionFields_unknown_entity_never_settles:
  "map_of (entities (shop_config JUndefined)) ''author'' = None \<and>
   getEditionFields ''author'' FilterUndefined (shop_world JUndefined) =
     (Pending, shop_world JUndefined) \<and>
   fst (getOne shop_server ''author'' (JNum 1) (shop_world JUndefined)) =
     Rejected (JStr ''Entity author not found.'')"
  by (simp add: getEditionFields_def getOne_def js_in_def Object_prototype_def plumbing
      not_found_def shop_world_def shop_config_def)

text \<open>
  Claim C3, as amended. For an entity name for which \<open>entityName in config.entities\<close> is
  false, that is a name which is neither a key of the loaded configuration's entities nor
  a property inherited from \<open>Object.prototype\<close>, \<open>getOne\<close>, \<open>createOne\<close>, \<open>updateOne\<close> and
  \<open>getAll\<close> reject with \<open>'Entity <name> not found.'\<close> and leave the world as it is, so no
  request is sent; \<open>deleteOne\<close> does not look the name up: it sends the removal and settles
  as the request does.
\<close>

theorem unknown_entity_is_rejected:
  assumes "configuration w = Resolved config"
    and "map_of (entities config) entityName = None"
    and "map_of Object_prototype entityName = None"
  shows "getOne S entityName entityId w = (Rejected (not_found entityName), w) \<and>
     createOne S entityName entity w = (Rejected (not_found entityName), w) \<and>
     updateOne S entityName entity w = (Rejected (not_found entityName), w) \<and>
     getAll S entityName page w = (Rejected (not_found entityName), w) \<and>
     not_found entityName = JStr (''Entity '' @ entityName @ '' not found.'') \<and>
     deleteOne S entityName entityId w =
       (answer_write S
          \<lparr>call_baseUrl = baseApiUrl (global config), call_fullResponse = fullResponse w,
           call_request = Remove entityName entityId\<rparr>,
        w\<lparr>baseUrl := baseApiUrl (global config),
          sent := sent w @
            [\<lparr>call_baseUrl = baseApiUrl (global config), call_fullResponse = fullResponse w,
              call_request = Remove entityName entityId\<rparr>]\<rparr>)"
proof -
  let ?c = "\<lparr>call_baseUrl = baseApiUrl (global config), call_fullResponse = fullResponse w,
            call_request = Remove entityName entityId\<rparr>"
  note out = absent_js_in [OF assms(2,3)]
  have "getOne S entityName entityId w = (Rejected (not_found entityName), w)"
    using assms(1) out by (simp add: getOne_def plumbing)
  moreover have "createOne S entityName entity w = (Rejected (not_found entityName), w)"
    using assms(1) out by (simp add: createOne_def plumbing)
  moreover have "updateOne S entityName entity w = (Rejected (not_found entityName), w)"
    using assms(1) out by (simp add: updateOne_def plumbing)
  moreover have "getAll S entityName page w = (Rejected (not_found entityName), w)"
    using assms(1) out by (simp add: getAll_def plumbing)
  moreover have "deleteOne S entityName entityId w =
       (answer_write S ?c, w\<lparr>baseUrl := baseApiUrl (global config), sent := sent w @ [?c]\<rparr>)"
    using assms(1) by (cases "answer_write S ?c") (simp_all add: deleteOne_def plumbing)
  ultimately show ?thesis by (simp add: not_found_def)
qed

theorem unknown_entity_is_rejected_witness:
  "getOne shop_server ''author'' (JNum 1) (shop_world JUndefined) =
     (Rejected (JStr ''Entity author not found.''), shop_world JUndefined) \<and>
   createOne shop_server ''author'' [(''name'', JStr ''Eco'')] (shop_world JUndefined) =
     (Rejected (JStr ''Entity author not found.''), shop_world JUndefined) \<and>
   updateOne shop_server ''author'' [(''name'', JStr ''Eco'')] (shop_world JUndefined) =
     (Rejected (JStr ''Entity author not found.''), shop_world JUndefined) \<and>
   getAll shop_server ''author'' JUndefined (shop_world JUndefined) =
     (Rejected (JStr ''Entity author not found.''), shop_world JUndefined) \<and>
   fst (deleteOne shop_server ''author'' (JNum 1) (shop_world JUndefined)) = Resolved JNull"
  using unknown_entity_is_rejected
      [of "shop_world JUndefined" "shop_config JUndefined" "''author''" shop_server "JNum 1"
          "[(''name'', JStr ''Eco'')]" JUndefined]
  by (simp add: shop_world_def shop_config_def shop_server_def Object_prototype_def)

text \<open>
  As stated, C3 has every operation reject for every name that is not a key.
  \<open>deleteOne('author', 1)\<close> on the bookshop sends the removal and resolves. And
  \<open>constructor\<close> is not a key of the bookshop's entities, but \<open>'constructor' in
  config.entities\<close> holds, so \<open>createOne('constructor', ...)\<close> passes the check and does not
  reject with the message.
\<close>

theorem deleteOne_unknown_entity_counterexample:
  "map_of (entities (shop_config JUndefined)) ''author'' = None \<and>
   deleteOne shop_server ''author'' (JNum 1) (shop_world JUndefined) =
     (Resolved JNull,
      (shop_world JUndefined)
        \<lparr>baseUrl := JStr ''/api'',
         sent := [\<lparr>call_baseUrl = JStr ''/api'', call_fullResponse = False,
                   call_request = Remove ''author'' (JNum 1)\<rparr>]\<rparr>) \<and>
   map_of (entities (shop_config JUndefined)) ''constructor'' = None \<and>
   fst (createOne shop_server ''constructor'' [(''name'', JStr ''Eco'')]
          (shop_world JUndefined)) \<noteq>
     Rejected (JStr ''Entity constructor not found.'')"
  by (simp add: deleteOne_def createOne_def js_in_def Object_prototype_def plumbing
      shop_world_def shop_config_def shop_server_def)

section \<open>What the operations do to the configuration\<close>

text \<open>
  Claim C7, as amended. \<open>getEditionFields\<close>, \<open>createOne\<close>, \<open>updateOne\<close>, \<open>deleteOne\<close> and
  \<open>getAll\<close> leave the loaded configuration object as it is. \<open>getOne\<close> writes into it:
  when the call resolves, the fields of the requested entity in the configuration are
  the fields the call resolved with. Nothing else changes: the global section, the entity names and every
  other entity are the same, the requested entity keeps its label and its field names,
  a field without an \<open>edition\<close> tag is unchanged, and an edition-tagged field differs at
  most in its \<open>value\<close> attribute.
\<close>

theorem configuration_changes_only_in_hydrated_values:
  assumes "configuration w = Resolved config"
    and "\<forall>ec. map_of (entities config) entityName = Some ec \<longrightarrow>
           distinct (map fst (fields_cfg ec))"
  shows "configuration (snd (getEditionFields entityName filterType w)) = Resolved config \<and>
     configuration (snd (createOne S entityName entity w)) = Resolved config \<and>
     configuration (snd (updateOne S entityName entity w)) = Resolved config \<and>
     configuration (snd (deleteOne S entityName entityId w)) = Resolved config \<and>
     configuration (snd (getAll S entityName page w)) = Resolved config \<and>
     (\<exists>config'.
        configuration (snd (getOne S entityName entityId w)) = Resolved config' \<and>
        global config' = global config \<and>
        map fst (entities config') = map fst (entities config) \<and>
        (\<forall>r. fst (getOne S entityName entityId w) = Resolved r \<longrightarrow>
           map_option fields_cfg (map_of (entities config') entityName) = one_fields r) \<and>
        (\<forall>name ec. map_of (entities config) name = Some ec \<longrightarrow>
           (\<exists>ec'. map_of (entities config') name = Some ec' \<and>
              (name \<noteq> entityName \<longrightarrow> ec' = ec) \<and>
              label ec' = label ec \<and>
              map fst (fields_cfg ec') = map fst (fields_cfg ec) \<and>
              (\<forall>fieldName field. map_of (fields_cfg ec) fieldName = Some field \<longrightarrow>
                 (\<exists>field'. map_of (fields_cfg ec') fieldName = Some field' \<and>
                    (get_property field ''edition'' = JUndefined \<longrightarrow> field' = field) \<and>
                    (\<forall>a. a \<noteq> ''value'' \<longrightarrow>
                       get_property field' a = get_property field a))))))"
proof -
  let ?after = "configuration (snd (getOne S entityName entityId w))"
  let ?P = "\<lambda>config'. ?after = Resolved config' \<and>
        global config' = global config \<and>
        map fst (entities config') = map fst (entities config) \<and>
        (\<forall>r. fst (getOne S entityName entityId w) = Resolved r \<longrightarrow>
           map_option fields_cfg (map_of (entities config') entityName) = one_fields r) \<and>
        (\<forall>name ec. map_of (entities config) name = Some ec \<longrightarrow>
           (\<exists>ec'. map_of (entities config') name = Some ec' \<and>
              (name \<noteq> entityName \<longrightarrow> ec' = ec) \<and>
              label ec' = label ec \<and>
              map fst (fields_cfg ec') = map fst (fields_cfg ec) \<and>
              (\<forall>fieldName field. map_of (fields_cfg ec) fieldName = Some field \<longrightarrow>
                 (\<exists>field'. map_of (fields_cfg ec') fieldName = Some field' \<and>
                    (get_property field ''edition'' = JUndefined \<longrightarrow> field' = field) \<and>
                    (\<forall>a. a \<noteq> ''value'' \<longrightarrow>
                       get_property field' a = get_property field a)))))"
  have "\<exists>config'. ?P config'"
    using getOne_configuration [OF assms(1), of S entityName entityId]
  proof (elim disjE conjE exE)
    assume "?after = Resolved config"
      and "\<forall>r. fst (getOne S entityName entityId w) = Resolved r \<longrightarrow>
             map_of (entities config) entityName = None \<and> one_fields r = None"
    then have same: "?P config" by simp
    show ?thesis by (rule exI [of _ config]) (rule same)
  next
    fix ec :: entity_config and response :: "entity response"
    let ?g = "\<lambda>k f. if typeof_undefined (get_property f ''edition'') then f
          else if \<not> typeof_undefined (get_property (data response) k)
            then set_property ''value'' (get_property (data response) k) f else f"
    let ?fs = "forEach (fields_cfg ec) (hydrate_field (data response)) (fields_cfg ec)"
    let ?config' = "config\<lparr>entities := AList.map_entry entityName
             (\<lambda>ec'. ec'\<lparr>fields_cfg := ?fs\<rparr>) (entities config)\<rparr>"
    assume ec: "map_of (entities config) entityName = Some ec"
      and res: "fst (getOne S entityName entityId w) =
          Resolved \<lparr>one_fields = Some ?fs, one_entityLabel = label ec,
             one_entityName = entityName, one_entityId = entityId\<rparr>"
      and after: "?after = Resolved ?config'"
    from assms(2) ec have d: "distinct (map fst (fields_cfg ec))" by simp
    have fs: "?fs = map (\<lambda>(k, f). (k, ?g k f)) (fields_cfg ec)"
      by (rule forEach_hydrate [OF d])
    have keys: "map fst ?fs = map fst (fields_cfg ec)"
      unfolding fs by (rule map_fst_map_keyed)
    have look: "map_of ?fs k = map_option (?g k) (map_of (fields_cfg ec) k)" for k
      unfolding fs by (rule map_of_map_keyed)
    have field: "\<exists>field'. map_of ?fs fieldName = Some field' \<and>
          (get_property field ''edition'' = JUndefined \<longrightarrow> field' = field) \<and>
          (\<forall>a. a \<noteq> ''value'' \<longrightarrow> get_property field' a = get_property field a)"
      if "map_of (fields_cfg ec) fieldName = Some field" for fieldName field
      using that by (simp add: look typeof_undefined_def get_property_set_other)
    have ent: "\<exists>ec'. map_of (entities ?config') name = Some ec' \<and>
              (name \<noteq> entityName \<longrightarrow> ec' = ec0) \<and>
              label ec' = label ec0 \<and>
              map fst (fields_cfg ec') = map fst (fields_cfg ec0) \<and>
              (\<forall>fieldName field. map_of (fields_cfg ec0) fieldName = Some field \<longrightarrow>
                 (\<exists>field'. map_of (fields_cfg ec') fieldName = Some field' \<and>
                    (get_property field ''edition'' = JUndefined \<longrightarrow> field' = field) \<and>
                    (\<forall>a. a \<noteq> ''value'' \<longrightarrow>
                       get_property field' a = get_property field a)))"
      if "map_of (entities config) name = Some ec0" for name ec0
    proof (cases "name = entityName")
      case True
      with that ec have "ec0 = ec" by simp
      with True ec keys field show ?thesis by (simp add: map_of_map_entry)
    next
      case False
      with that show ?thesis by (simp add: map_of_map_entry)
    qed
    have written: "?P ?config'"
      using after res ec ent by (simp add: map_fst_map_entry map_of_map_entry)
    show ?thesis by (rule exI [of _ ?config']) (rule written)
  qed
  with assms(1) show ?thesis
    by (simp only: other_operations_keep_configuration simp_thms)
qed

theorem configuration_changes_only_in_hydrated_values_witness:
  "configuration (snd (getAll shop_server ''book'' (JNum 2) (shop_world JUndefined))) =
     Resolved (shop_config JUndefined) \<and>
   configuration (snd (deleteOne shop_server ''book'' (JNum 5) (shop_world JUndefined))) =
     Resolved (shop_config JUndefined) \<and>
   (\<exists>config'.
      configuration (snd (getOne shop_server ''book'' (JNum 5) (shop_world JUndefined))) =
        Resolved config' \<and>
      global config' = global (shop_config JUndefined) \<and>
      map fst (entities config') = [''book''])"
proof -
  have c: "configuration (shop_world JUndefined) = Resolved (shop_config JUndefined)"
    by (simp add: shop_world_def)
  have d: "\<forall>ec. map_of (entities (shop_config JUndefined)) ''book'' = Some ec \<longrightarrow>
      distinct (map fst (fields_cfg ec))"
    by (simp add: shop_config_def book_entity_def book_fields_def)
  from configuration_changes_only_in_hydrated_values
    [OF c d, of FilterUndefined shop_server "[]" "JNum 5" "JNum 2"]
  show ?thesis by (auto simp: shop_config_def)
qed

text \<open>
  As stated, C7 has no operation modify the configuration and no \<open>value\<close> outlive the
  call. After \<open>getOne('book', 5)\<close> the configuration of the bookshop is another one, and a
  later \<open>getEditionFields('book')\<close> hands out the title field with the value \<open>'Foo'\<close> of
  record 5.
\<close>

theorem getOne_writes_into_configuration_counterexample:
  "configuration (snd (getOne shop_server ''book'' (JNum 5) (shop_world JUndefined))) \<noteq>
     configuration (shop_world JUndefined) \<and>
   fst (getEditionFields ''book'' FilterUndefined
          (snd (getOne shop_server ''book'' (JNum 5) (shop_world JUndefined)))) =
     Resolved
       \<lparr>ed_fields = [(''title'', [(''edition'', JStr ''editable''), (''value'', JStr ''Foo'')])],
        ed_entityLabel = JStr ''Books'',
        ed_entityName = ''book''\<rparr>"
  by (simp add: getOne_def getEditionFields_def js_in_def get_member_def
      filterEditionFields_def forEach_def hydrate_field_def plumbing examples
      get_property_def set_property_def typeof_undefined_def Object_prototype_def)

end
